theory Spec2Isabelle
  imports Main "HOL-Library.AList"
begin

section \<open>Values exchanged with the program\<close>

text \<open>
  The action plan is the result of \<^verbatim>\<open>json.loads\<close>: every action, every field
  of an action and every credential is a JSON value.  A Python dict is an association list
  in insertion order; \<open>map_of\<close> reads a key and \<open>AList.update\<close> assigns one (an
  existing key keeps its position, a new key is appended), as Python's dict does.
  JSON numbers are integers here; fractional numbers are not represented.
\<close>

datatype jval =
    JNull
  | JBool bool
  | JNum int
  | JStr string
  | JArr "jval list"
  | JObj "(string \<times> jval) list"

type_synonym pydict = "(string \<times> jval) list"

text \<open>
  The exceptions the program can see.  \<open>PyException\<close> is a plain
  \<^verbatim>\<open>raise Exception(msg)\<close> of the source, \<open>DriverError\<close> anything the browser
  driver raises, \<open>HTTPException\<close> the web framework's exception with its status code
  and detail.
\<close>

datatype exn =
    KeyError string
  | TypeError string
  | IndexError string
  | AttributeError string
  | PyException string
  | DriverError string
  | HTTPException nat string

fun string_of_nat :: "nat \<Rightarrow> string" where
  "string_of_nat n =
     (if n < 10 then [''0123456789'' ! n]
      else string_of_nat (n div 10) @ [''0123456789'' ! (n mod 10)])"

declare string_of_nat.simps [simp del]

text \<open>
  \<^verbatim>\<open>str(e)\<close>: a KeyError prints the repr of its key, the framework's
  HTTPException prints \<^verbatim>\<open>"<status>: <detail>"\<close>, the others print their message.
\<close>

fun str_exn :: "exn \<Rightarrow> string" where
  "str_exn (KeyError k) = [CHR 0x27] @ k @ [CHR 0x27]"
| "str_exn (TypeError m) = m"
| "str_exn (IndexError m) = m"
| "str_exn (AttributeError m) = m"
| "str_exn (PyException m) = m"
| "str_exn (DriverError m) = m"
| "str_exn (HTTPException code detail) = string_of_nat code @ '': '' @ detail"

text \<open>
  The texts of the errors the interpreter itself raises.  \<open>py_type_name\<close> is
  \<^verbatim>\<open>type(v).__name__\<close>, \<open>quoted\<close> puts a text between single quotes.
  \<open>subscript_error v\<close> is what \<^verbatim>\<open>v["key"]\<close> raises when \<open>v\<close> is not a dict
  (the wording for a string is that of CPython 3.11 and later).
\<close>

fun py_type_name :: "jval \<Rightarrow> string" where
  "py_type_name JNull = ''NoneType''"
| "py_type_name (JBool b) = ''bool''"
| "py_type_name (JNum n) = ''int''"
| "py_type_name (JStr s) = ''str''"
| "py_type_name (JArr xs) = ''list''"
| "py_type_name (JObj kvs) = ''dict''"

definition quoted :: "string \<Rightarrow> string" where
  "quoted s = [CHR 0x27] @ s @ [CHR 0x27]"

fun subscript_error :: "jval \<Rightarrow> exn" where
  "subscript_error (JStr s) =
     TypeError (''string indices must be integers, not '' @ quoted ''str'')"
| "subscript_error (JArr xs) = TypeError ''list indices must be integers or slices, not str''"
| "subscript_error v = TypeError (quoted (py_type_name v) @ '' object is not subscriptable'')"

text \<open>Truth value of a Python object, as \<^verbatim>\<open>if starting_url:\<close> tests it.\<close>

fun py_truthy :: "jval \<Rightarrow> bool" where
  "py_truthy JNull = False"
| "py_truthy (JBool b) = b"
| "py_truthy (JNum n) = (n \<noteq> 0)"
| "py_truthy (JStr s) = (s \<noteq> [])"
| "py_truthy (JArr xs) = (xs \<noteq> [])"
| "py_truthy (JObj kvs) = (kvs \<noteq> [])"

text \<open>\<^verbatim>\<open>k in d\<close>, \<^verbatim>\<open>d[k]\<close> and \<^verbatim>\<open>d.get(k, default)\<close> on a dict.\<close>

definition has_key :: "pydict \<Rightarrow> string \<Rightarrow> bool" where
  "has_key kvs k = (map_of kvs k \<noteq> None)"

definition dict_getitem :: "pydict \<Rightarrow> string \<Rightarrow> exn + jval" where
  "dict_getitem kvs k = (case map_of kvs k of None \<Rightarrow> Inl (KeyError k) | Some v \<Rightarrow> Inr v)"

definition dict_get :: "pydict \<Rightarrow> string \<Rightarrow> jval \<Rightarrow> jval" where
  "dict_get kvs k dflt = (case map_of kvs k of None \<Rightarrow> dflt | Some v \<Rightarrow> v)"

text \<open>
  \<^verbatim>\<open>action["type"]\<close> on an element of the plan: only a dict can be subscripted
  with a string; a list, a string, a number, a boolean or null raises TypeError.
\<close>

definition action_type_of :: "jval \<Rightarrow> exn + jval" where
  "action_type_of a =
     (case a of
        JObj kvs \<Rightarrow> dict_getitem kvs ''type''
      | _ \<Rightarrow> Inl (subscript_error a))"

text \<open>\<^verbatim>\<open>s.lower()\<close> and \<^verbatim>\<open>p in s\<close> on strings.\<close>

definition lower_char :: "char \<Rightarrow> char" where
  "lower_char c =
     (case map_of (zip ''ABCDEFGHIJKLMNOPQRSTUVWXYZ'' ''abcdefghijklmnopqrstuvwxyz'') c of
        None \<Rightarrow> c
      | Some l \<Rightarrow> l)"

definition lower :: "string \<Rightarrow> string" where
  "lower s = map lower_char s"

fun contains_str :: "string \<Rightarrow> string \<Rightarrow> bool" where
  "contains_str p [] = (p = [])"
| "contains_str p (c # cs) = (take (length p) (c # cs) = p \<or> contains_str p cs)"

section \<open>Credential substitution (\<^verbatim>\<open>interact\<close>, lines 362 to 374)\<close>

text \<open>
  One iteration of the loop over \<^verbatim>\<open>actions_data["actions"]\<close>.  The loop mutates
  the action in place; the model returns the action after the iteration, or the exception
  that leaves the loop (a missing \<^verbatim>\<open>type\<close>, a missing \<^verbatim>\<open>selector\<close> on the
  \<^verbatim>\<open>elif\<close> path, a selector without \<^verbatim>\<open>.lower()\<close>).
\<close>

definition substitute_action :: "pydict \<Rightarrow> jval \<Rightarrow> exn + jval" where
  "substitute_action credentials a =
     (case a of
        JObj kvs \<Rightarrow>
          (case dict_getitem kvs ''type'' of
             Inl e \<Rightarrow> Inl e
           | Inr t \<Rightarrow>
               if t = JStr ''fill'' then
                 if has_key kvs ''text'' \<and> map_of kvs ''text'' = Some (JStr ''YOUR_USERNAME'')
                 then Inr (JObj (AList.update ''text''
                                  (dict_get credentials ''username'' (JStr '''')) kvs))
                 else
                   (case dict_getitem kvs ''selector'' of
                      Inl e \<Rightarrow> Inl e
                    | Inr (JStr sel) \<Rightarrow>
                        if contains_str ''password'' (lower sel)
                           \<or> (has_key kvs ''text''
                               \<and> map_of kvs ''text'' = Some (JStr ''YOUR_PASSWORD''))
                        then Inr (JObj (AList.update ''text''
                                         (dict_get credentials ''password'' (JStr '''')) kvs))
                        else Inr a
                    | Inr v \<Rightarrow>
                        Inl (AttributeError (quoted (py_type_name v)
                               @ '' object has no attribute '' @ quoted ''lower'')))
               else if t = JStr ''login'' \<and> has_key kvs ''username_selector'' then
                 Inr (JObj (AList.update ''password''
                              (dict_get credentials ''password'' (JStr ''''))
                              (AList.update ''username''
                                 (dict_get credentials ''username'' (JStr '''')) kvs)))
               else Inr a)
      | _ \<Rightarrow> Inl (subscript_error a))"

fun substitute_all :: "pydict \<Rightarrow> jval list \<Rightarrow> exn + jval list" where
  "substitute_all credentials [] = Inr []"
| "substitute_all credentials (a # as) =
     (case substitute_action credentials a of
        Inl e \<Rightarrow> Inl e
      | Inr a' \<Rightarrow>
          (case substitute_all credentials as of
             Inl e \<Rightarrow> Inl e
           | Inr as' \<Rightarrow> Inr (a' # as')))"

text \<open>
  \<^verbatim>\<open>if request.credentials:\<close> skips the pass when the credentials are absent or
  an empty dict.
\<close>

definition substitute_credentials :: "pydict option \<Rightarrow> jval list \<Rightarrow> exn + jval list" where
  "substitute_credentials credentials actions =
     (case credentials of
        None \<Rightarrow> Inr actions
      | Some creds \<Rightarrow> if creds \<noteq> [] then substitute_all creds actions else Inr actions)"

text \<open>The two fill actions and the credentials of the spec's substitution example.\<close>

definition fill_user :: jval where
  "fill_user = JObj [(''type'', JStr ''fill''), (''selector'', JStr ''#user''),
                     (''text'', JStr ''YOUR_USERNAME'')]"

definition fill_pass :: jval where
  "fill_pass = JObj [(''type'', JStr ''fill''), (''selector'', JStr ''#pass''),
                     (''text'', JStr ''YOUR_PASSWORD'')]"

definition creds_up :: pydict where
  "creds_up = [(''username'', JStr ''u''), (''password'', JStr ''p'')]"

section \<open>The browser driver\<close>

text \<open>
  The browser is outside the program.  It is a world of type \<open>'w\<close> and a record of the
  driver calls the executor makes; each call takes the world and returns the new world
  with either the exception it raised (\<open>Inl\<close>) or its value (\<open>Inr\<close>).  Element
  handles have type \<open>'h\<close>.  Arguments that the executor reads from an action are
  passed as the JSON values they are.  Nothing is assumed about the driver: every call may
  fail, in any world.
\<close>

type_synonym ('a, 'w) io = "'w \<Rightarrow> (exn + 'a) \<times> 'w"

type_synonym bytes = "char list"

text \<open>
  The three ways the source calls \<^verbatim>\<open>page.screenshot\<close>: without arguments
  (line 295), with \<^verbatim>\<open>type="png"\<close> (lines 308 and 330), with
  \<^verbatim>\<open>type="png", full_page=True\<close> (line 316).
\<close>

datatype shot = ShotDefault | ShotPng | ShotFullPage

record ('w, 'h) driver =
  chromium_launch :: "(unit, 'w) io"
  new_context :: "(unit, 'w) io"
  new_page :: "(unit, 'w) io"
  page_goto :: "jval \<Rightarrow> string \<Rightarrow> (unit, 'w) io"
  page_wait_for_load_state :: "(unit, 'w) io"
  page_wait_for_selector :: "jval \<Rightarrow> nat \<Rightarrow> (unit, 'w) io"
  page_click :: "jval \<Rightarrow> (unit, 'w) io"
  page_fill :: "jval \<Rightarrow> jval \<Rightarrow> (unit, 'w) io"
  page_press :: "jval \<Rightarrow> jval \<Rightarrow> (unit, 'w) io"
  page_wait_for_timeout :: "jval \<Rightarrow> (unit, 'w) io"
  page_scroll_by :: "jval \<Rightarrow> (unit, 'w) io"
  page_query_selector_all :: "string \<Rightarrow> ('h list, 'w) io"
  page_screenshot :: "shot \<Rightarrow> (bytes, 'w) io"
  scroll_into_view_if_needed :: "'h \<Rightarrow> (unit, 'w) io"
  query_selector :: "'h \<Rightarrow> string \<Rightarrow> ('h option, 'w) io"
  get_attribute :: "'h \<Rightarrow> string \<Rightarrow> (string option, 'w) io"
  evaluate_click :: "'h \<Rightarrow> (unit, 'w) io"
  asyncio_sleep :: "nat \<Rightarrow> 'w \<Rightarrow> 'w"
  context_close :: "(unit, 'w) io"
  browser_close :: "(unit, 'w) io"
  b64encode :: "bytes \<Rightarrow> string"

text \<open>
  \<open>page_scroll_by d px\<close> is \<^verbatim>\<open>page.evaluate(f"window.scrollBy(0, {px})")\<close>,
  \<open>evaluate_click d h\<close> is the \<^verbatim>\<open>evaluate\<close> call of line 260 that invokes the
  button's own click, and \<open>b64encode\<close> is
  \<^verbatim>\<open>base64.b64encode(...).decode()\<close>, a pure function of the library.
\<close>

subsection \<open>Sequencing calls that may raise\<close>

definition io_return :: "'a \<Rightarrow> ('a, 'w) io" where
  "io_return x w = (Inr x, w)"

definition io_raise :: "exn \<Rightarrow> ('a, 'w) io" where
  "io_raise e w = (Inl e, w)"

definition io_lift :: "exn + 'a \<Rightarrow> ('a, 'w) io" where
  "io_lift r w = (r, w)"

definition io_bind :: "('a, 'w) io \<Rightarrow> ('a \<Rightarrow> ('b, 'w) io) \<Rightarrow> ('b, 'w) io" where
  "io_bind m f w = (case m w of (Inl e, w') \<Rightarrow> (Inl e, w') | (Inr x, w') \<Rightarrow> f x w')"

section \<open>Results\<close>

record step_result =
  step_action :: jval
  step_success :: bool
  step_error :: "string option"
  step_screenshot :: "string option"

record automation_response =
  success :: bool
  message :: string
  data :: "step_result list option"
  screenshot :: "string option"

record button_state =
  aria_pressed :: string
  aria_label :: string
  classes :: string

text \<open>
  The dict that the \<^verbatim>\<open>like_post\<close> branch returns: its \<^verbatim>\<open>debug\<close> entry
  holds the two snapshots on the success path, the error text and a screenshot on the
  failure path.
\<close>

datatype like_debug =
    DebugStates button_state button_state
  | DebugError string string

record like_result =
  like_success :: bool
  like_message :: string
  like_debug :: like_debug

text \<open>What \<^verbatim>\<open>execute_actions\<close> returns: the response model or the raw dict.\<close>

datatype result = Response automation_response | LikeDict like_result

section \<open>The \<^verbatim>\<open>like_post\<close> branch (lines 205 to 297)\<close>

definition feed_selector :: string where
  "feed_selector = ''.scaffold-finite-scroll__content''"

definition posts_selector :: string where
  "posts_selector = ''[data-id^='urn:li:activity']''"

definition primary_like_selector :: string where
  "primary_like_selector =
     ''button.react-button__trigger[aria-label^='React'], button.social-actions-button, button[aria-label*='Like']''"

definition fallback_like_selector :: string where
  "fallback_like_selector =
     ''button:has(svg[data-icon*='thumb']), button:has(img[alt='like'])''"

text \<open>
  \<^verbatim>\<open>x - 1\<close> on the value of \<^verbatim>\<open>action.get("index", 1)\<close>: a boolean counts
  as 0 or 1, anything that is not a number raises the TypeError of the \<^verbatim>\<open>-\<close> operator.
\<close>

definition py_minus_one :: "jval \<Rightarrow> exn + int" where
  "py_minus_one v =
     (case v of
        JNum n \<Rightarrow> Inr (n - 1)
      | JBool b \<Rightarrow> Inr ((if b then 1 else 0) - 1)
      | _ \<Rightarrow>
          Inl (TypeError (''unsupported operand type(s) for -: '' @ quoted (py_type_name v)
                 @ '' and '' @ quoted ''int'')))"

text \<open>\<^verbatim>\<open>xs[i]\<close> on a list: a negative index counts from the end.\<close>

definition list_getitem :: "'a list \<Rightarrow> int \<Rightarrow> exn + 'a" where
  "list_getitem xs i =
     (let n = int (length xs); j = (if i < 0 then i + n else i)
      in if 0 \<le> j \<and> j < n then Inr (xs ! nat j)
         else Inl (IndexError ''list index out of range''))"

text \<open>Line 223.\<close>

definition post_index :: "pydict \<Rightarrow> 'h list \<Rightarrow> exn + int" where
  "post_index action posts =
     (case py_minus_one (dict_get action ''index'' (JNum 1)) of
        Inl e \<Rightarrow> Inl e
      | Inr i \<Rightarrow> Inr (min i (int (length posts) - 1)))"

text \<open>Lines 223 to 226.\<close>

definition select_post :: "pydict \<Rightarrow> 'h list \<Rightarrow> exn + 'h" where
  "select_post action posts =
     (case post_index action posts of
        Inl e \<Rightarrow> Inl e
      | Inr i \<Rightarrow> list_getitem posts i)"

text \<open>\<^verbatim>\<open>await h.get_attribute(name) or "null"\<close>: None and the empty string give "null".\<close>

definition or_null :: "string option \<Rightarrow> string" where
  "or_null v = (case v of None \<Rightarrow> ''null'' | Some s \<Rightarrow> if s = [] then ''null'' else s)"

text \<open>The snapshot of lines 250 to 254 and 264 to 268.\<close>

definition button_snapshot :: "('w, 'h) driver \<Rightarrow> 'h \<Rightarrow> (button_state, 'w) io" where
  "button_snapshot d btn =
     io_bind (get_attribute d btn ''aria-pressed'') (\<lambda>p.
     io_bind (get_attribute d btn ''aria-label'') (\<lambda>l.
     io_bind (get_attribute d btn ''class'') (\<lambda>c.
     io_return \<lparr>aria_pressed = or_null p, aria_label = or_null l, classes = or_null c\<rparr>)))"

text \<open>Lines 233 to 247.\<close>

definition find_like_button :: "('w, 'h) driver \<Rightarrow> 'h \<Rightarrow> ('h, 'w) io" where
  "find_like_button d post =
     io_bind (query_selector d post primary_like_selector) (\<lambda>b.
       case b of
         Some btn \<Rightarrow> io_return btn
       | None \<Rightarrow>
           io_bind (query_selector d post fallback_like_selector) (\<lambda>b2.
             case b2 of
               Some btn \<Rightarrow> io_return btn
             | None \<Rightarrow> io_raise (PyException ''Like button not found'')))"

text \<open>The condition of the \<^verbatim>\<open>if\<close> at lines 273 and 274.\<close>

definition state_unchanged :: "button_state \<Rightarrow> button_state \<Rightarrow> bool" where
  "state_unchanged current_state new_state =
     (aria_pressed new_state = aria_pressed current_state
      \<or> aria_label new_state = aria_label current_state)"

text \<open>Lines 227 to 276, from the selected post on.\<close>

definition like_on_post ::
  "('w, 'h) driver \<Rightarrow> 'h \<Rightarrow> (button_state \<times> button_state, 'w) io" where
  "like_on_post d post =
     io_bind (scroll_into_view_if_needed d post) (\<lambda>_.
     io_bind (page_wait_for_timeout d (JNum 2000)) (\<lambda>_.
     io_bind (find_like_button d post) (\<lambda>like_button.
     io_bind (button_snapshot d like_button) (\<lambda>current_state.
     io_bind (evaluate_click d like_button) (\<lambda>_.
     io_bind (page_wait_for_timeout d (JNum 3000)) (\<lambda>_.
     io_bind (button_snapshot d like_button) (\<lambda>new_state.
       if state_unchanged current_state new_state
       then io_raise (PyException ''Like action didn't register - button state unchanged'')
       else io_return (current_state, new_state))))))))"

text \<open>The body of the inner \<^verbatim>\<open>try\<close>, lines 207 to 276.\<close>

definition like_body ::
  "('w, 'h) driver \<Rightarrow> pydict \<Rightarrow> (button_state \<times> button_state, 'w) io" where
  "like_body d action =
     io_bind (page_wait_for_selector d (JStr feed_selector) 15000) (\<lambda>_.
     io_bind (page_query_selector_all d posts_selector) (\<lambda>posts.
       if posts = [] then io_raise (PyException ''No posts found - may need different selectors'')
       else io_bind (io_lift (select_post action posts)) (\<lambda>post. like_on_post d post)))"

text \<open>
  The inner \<^verbatim>\<open>try\<close> with its handler, lines 206 to 297.  Both \<^verbatim>\<open>return\<close>
  statements give a dict.  The handler builds its dict from a screenshot; when that call
  raises, the exception leaves the handler and reaches the \<^verbatim>\<open>except\<close> of the step.
\<close>

definition like_post :: "('w, 'h) driver \<Rightarrow> pydict \<Rightarrow> (like_result, 'w) io" where
  "like_post d action w =
     (case like_body d action w of
        (Inr (current_state, new_state), w1) \<Rightarrow>
          (Inr \<lparr>like_success = True, like_message = ''Successfully liked post'',
                like_debug = DebugStates current_state new_state\<rparr>, w1)
      | (Inl e, w1) \<Rightarrow>
          (case page_screenshot d ShotDefault w1 of
             (Inl e2, w2) \<Rightarrow> (Inl e2, w2)
           | (Inr png, w2) \<Rightarrow>
               (Inr \<lparr>like_success = False, like_message = str_exn e,
                     like_debug = DebugError (str_exn e) (b64encode d png)\<rparr>, w2)))"

section \<open>The executor (\<^verbatim>\<open>execute_actions\<close>, lines 113 to 346)\<close>

text \<open>
  The \<^verbatim>\<open>if\<close>/\<^verbatim>\<open>elif\<close> chain of lines 163 to 297 on an action that is a dict
  with the type \<open>action_type\<close>.  The value \<open>None\<close> means that control falls out of the
  chain; \<open>Some r\<close> means that the \<^verbatim>\<open>like_post\<close> branch executed
  \<^verbatim>\<open>return r\<close>.  A type that no branch names falls out of the chain at once.
\<close>

definition dispatch ::
  "('w, 'h) driver \<Rightarrow> jval \<Rightarrow> pydict \<Rightarrow> (like_result option, 'w) io" where
  "dispatch d action_type action =
     (if action_type = JStr ''navigate'' then
        io_bind (io_lift (dict_getitem action ''url'')) (\<lambda>url.
        io_bind (page_goto d url ''networkidle'') (\<lambda>_. io_return None))
      else if action_type = JStr ''click'' then
        io_bind (io_lift (dict_getitem action ''selector'')) (\<lambda>sel.
        io_bind (page_wait_for_selector d sel 10000) (\<lambda>_.
        io_bind (io_lift (dict_getitem action ''selector'')) (\<lambda>sel2.
        io_bind (page_click d sel2) (\<lambda>_. io_return None))))
      else if action_type = JStr ''fill'' then
        io_bind (io_lift (dict_getitem action ''selector'')) (\<lambda>selector.
        io_bind (page_wait_for_selector d selector 10000) (\<lambda>_.
        io_bind (io_lift (dict_getitem action ''text'')) (\<lambda>text.
        io_bind (page_fill d selector text) (\<lambda>_. io_return None))))
      else if action_type = JStr ''press'' then
        if \<not> has_key action ''selector''
        then io_raise (PyException ''Press action requires a selector parameter'')
        else
          io_bind (io_lift (dict_getitem action ''selector'')) (\<lambda>sel.
          io_bind (page_wait_for_selector d sel 10000) (\<lambda>_.
          io_bind (io_lift (dict_getitem action ''selector'')) (\<lambda>sel2.
          io_bind (io_lift (dict_getitem action ''key'')) (\<lambda>key.
          io_bind (page_press d sel2 key) (\<lambda>_. io_return None)))))
      else if action_type = JStr ''wait'' then
        io_bind (io_lift (dict_getitem action ''timeout'')) (\<lambda>t.
        io_bind (page_wait_for_timeout d t) (\<lambda>_. io_return None))
      else if action_type = JStr ''scroll'' then
        io_bind (io_lift (dict_getitem action ''pixels'')) (\<lambda>px.
        io_bind (page_scroll_by d px) (\<lambda>_. io_return None))
      else if action_type = JStr ''login'' then
        io_bind (io_lift (dict_getitem action ''username_selector'')) (\<lambda>us.
        io_bind (page_wait_for_selector d us 10000) (\<lambda>_.
        io_bind (io_lift (dict_getitem action ''username_selector'')) (\<lambda>us2.
        io_bind (io_lift (dict_getitem action ''username'')) (\<lambda>username.
        io_bind (page_fill d us2 username) (\<lambda>_.
        io_bind (io_lift (dict_getitem action ''password_selector'')) (\<lambda>ps.
        io_bind (page_wait_for_selector d ps 10000) (\<lambda>_.
        io_bind (io_lift (dict_getitem action ''password_selector'')) (\<lambda>ps2.
        io_bind (io_lift (dict_getitem action ''password'')) (\<lambda>password.
        io_bind (page_fill d ps2 password) (\<lambda>_.
        io_bind (io_lift (dict_getitem action ''submit_selector'')) (\<lambda>ss.
        io_bind (page_wait_for_selector d ss 10000) (\<lambda>_.
        io_bind (io_lift (dict_getitem action ''submit_selector'')) (\<lambda>ss2.
        io_bind (page_click d ss2) (\<lambda>_. io_return None))))))))))))))
      else if action_type = JStr ''search'' then
        io_bind (io_lift (dict_getitem action ''search_selector'')) (\<lambda>ss.
        io_bind (page_wait_for_selector d ss 10000) (\<lambda>_.
        io_bind (io_lift (dict_getitem action ''search_selector'')) (\<lambda>ss2.
        io_bind (io_lift (dict_getitem action ''query'')) (\<lambda>q.
        io_bind (page_fill d ss2 q) (\<lambda>_.
        io_bind (io_lift (dict_getitem action ''submit_selector'')) (\<lambda>sub.
        io_bind (page_click d sub) (\<lambda>_. io_return None)))))))
      else if action_type = JStr ''like_post'' then
        io_bind (like_post d action) (\<lambda>r. io_return (Some r))
      else io_return None)"

text \<open>
  The body of the \<^verbatim>\<open>try\<close> of one step, lines 160 to 300: read the type,
  run the chain and, unless the chain returned, wait the settle delay of line 300.
\<close>

definition run_action ::
  "('w, 'h) driver \<Rightarrow> jval \<Rightarrow> (like_result option, 'w) io" where
  "run_action d action =
     (case action of
        JObj kvs \<Rightarrow>
          io_bind (io_lift (dict_getitem kvs ''type'')) (\<lambda>t.
          io_bind (dispatch d t kvs) (\<lambda>r.
            case r of
              Some res \<Rightarrow> io_return (Some res)
            | None \<Rightarrow> io_bind (page_wait_for_timeout d (JNum 1000)) (\<lambda>_. io_return None)))
      | _ \<Rightarrow> io_raise (subscript_error action))"

text \<open>
  One iteration of the \<^verbatim>\<open>for\<close> loop, lines 157 to 313.  \<open>Inl r\<close>: the iteration
  returned \<open>r\<close> from the function; \<open>Inr step\<close>: it appended \<open>step\<close> to the trail.
  The handler of lines 302 to 311 marks the step failed and adds a screenshot when one can
  be taken.
\<close>

definition run_step ::
  "('w, 'h) driver \<Rightarrow> jval \<Rightarrow> 'w \<Rightarrow> (like_result + step_result) \<times> 'w" where
  "run_step d action w =
     (case run_action d action w of
        (Inr (Some res), w1) \<Rightarrow> (Inl res, w1)
      | (Inr None, w1) \<Rightarrow>
          (Inr \<lparr>step_action = action, step_success = True, step_error = None,
                step_screenshot = None\<rparr>, w1)
      | (Inl e, w1) \<Rightarrow>
          (case page_screenshot d ShotPng w1 of
             (Inr png, w2) \<Rightarrow>
               (Inr \<lparr>step_action = action, step_success = False,
                     step_error = Some (str_exn e),
                     step_screenshot = Some (b64encode d png)\<rparr>, w2)
           | (Inl _, w2) \<Rightarrow>
               (Inr \<lparr>step_action = action, step_success = False,
                     step_error = Some (str_exn e), step_screenshot = None\<rparr>, w2)))"

text \<open>How the \<^verbatim>\<open>for\<close> loop ends: it ran out of actions, or an iteration returned.\<close>

datatype loop_exit = Completed "step_result list" | Returned like_result

fun run_loop ::
  "('w, 'h) driver \<Rightarrow> jval list \<Rightarrow> step_result list \<Rightarrow> 'w \<Rightarrow> loop_exit \<times> 'w" where
  "run_loop d [] steps w = (Completed steps, w)"
| "run_loop d (action # rest) steps w =
     (case run_step d action w of
        (Inl res, w1) \<Rightarrow> (Returned res, w1)
      | (Inr step, w1) \<Rightarrow> run_loop d rest (steps @ [step]) w1)"

text \<open>Lines 138 to 152: both calls sit in one \<^verbatim>\<open>try\<close>.\<close>

definition initial_navigation :: "('w, 'h) driver \<Rightarrow> jval \<Rightarrow> (unit, 'w) io" where
  "initial_navigation d starting_url w =
     (if py_truthy starting_url then
        (case io_bind (page_goto d starting_url ''domcontentloaded'')
                      (\<lambda>_. page_wait_for_load_state d) w of
           (Inl e, w1) \<Rightarrow>
             (Inl (HTTPException 500 (''Failed to navigate to starting URL: '' @ str_exn e)), w1)
         | (Inr u, w1) \<Rightarrow> (Inr u, w1))
      else (Inr (), w))"

text \<open>The body of the outer \<^verbatim>\<open>try\<close>, lines 138 to 324.\<close>

definition try_body :: "('w, 'h) driver \<Rightarrow> jval list \<Rightarrow> jval \<Rightarrow> (result, 'w) io" where
  "try_body d actions starting_url =
     io_bind (initial_navigation d starting_url) (\<lambda>_. (\<lambda>w.
       case run_loop d actions [] w of
         (Returned res, w1) \<Rightarrow> (Inr (LikeDict res), w1)
       | (Completed steps, w1) \<Rightarrow>
           io_bind (page_screenshot d ShotFullPage) (\<lambda>png.
             io_return (Response \<lparr>success = True, message = ''Automation completed'',
               data = Some steps,
               screenshot = Some (''data:image/png;base64,'' @ b64encode d png)\<rparr>)) w1))"

text \<open>The handler of the outer \<^verbatim>\<open>try\<close>, lines 326 to 341.\<close>

definition except_handler :: "('w, 'h) driver \<Rightarrow> exn \<Rightarrow> 'w \<Rightarrow> result \<times> 'w" where
  "except_handler d e w =
     (case page_screenshot d ShotPng w of
        (Inr png, w1) \<Rightarrow>
          (Response \<lparr>success = False, message = ''Automation failed: '' @ str_exn e,
             data = None,
             screenshot = Some (''data:image/png;base64,'' @ b64encode d png)\<rparr>, w1)
      | (Inl _, w1) \<Rightarrow>
          (Response \<lparr>success = False, message = ''Automation failed: '' @ str_exn e,
             data = None, screenshot = None\<rparr>, w1))"

text \<open>The outer \<^verbatim>\<open>try\<close> with its handler, lines 136 to 341: it always has a result.\<close>

definition try_except :: "('w, 'h) driver \<Rightarrow> jval list \<Rightarrow> jval \<Rightarrow> 'w \<Rightarrow> result \<times> 'w" where
  "try_except d actions starting_url w =
     (case try_body d actions starting_url w of
        (Inr res, w1) \<Rightarrow> (res, w1)
      | (Inl e, w1) \<Rightarrow> except_handler d e w1)"

text \<open>The \<^verbatim>\<open>finally\<close> block, lines 342 to 346.\<close>

definition finally_block :: "('w, 'h) driver \<Rightarrow> (unit, 'w) io" where
  "finally_block d w =
     io_bind (context_close d) (\<lambda>_. browser_close d) (asyncio_sleep d 1 w)"

text \<open>
  The whole function.  The browser, the context and the page are opened before the
  \<^verbatim>\<open>try\<close>; an exception there leaves the function at once.  An exception raised
  in the \<^verbatim>\<open>finally\<close> block replaces the result.
\<close>

definition execute_actions ::
  "('w, 'h) driver \<Rightarrow> jval list \<Rightarrow> jval \<Rightarrow> (result, 'w) io" where
  "execute_actions d actions starting_url =
     io_bind (chromium_launch d) (\<lambda>_.
     io_bind (new_context d) (\<lambda>_.
     io_bind (new_page d) (\<lambda>_. (\<lambda>w.
       case try_except d actions starting_url w of
         (res, w1) \<Rightarrow> io_bind (finally_block d) (\<lambda>_. io_return res) w1))))"

section \<open>Concrete drivers\<close>

text \<open>
  A small page to run the executor on.  The world counts the clicks on the like button.
  Every call succeeds; the feed has three posts \<open>0\<close>, \<open>1\<close>, \<open>2\<close>; the like button
  of post \<open>p\<close> is the handle \<open>p + 10\<close>; a click flips the pressed state and the
  label; every screenshot is the three bytes \<open>PNG\<close>, whose base64 text is \<open>UE5H\<close>.
\<close>

definition demo_driver :: "(nat, nat) driver" where
  "demo_driver =
     \<lparr>chromium_launch = io_return (),
      new_context = io_return (),
      new_page = io_return (),
      page_goto = (\<lambda>url wait_until. io_return ()),
      page_wait_for_load_state = io_return (),
      page_wait_for_selector = (\<lambda>sel timeout. io_return ()),
      page_click = (\<lambda>sel. io_return ()),
      page_fill = (\<lambda>sel text. io_return ()),
      page_press = (\<lambda>sel key. io_return ()),
      page_wait_for_timeout = (\<lambda>ms. io_return ()),
      page_scroll_by = (\<lambda>px. io_return ()),
      page_query_selector_all = (\<lambda>sel. io_return [0, 1, 2]),
      page_screenshot = (\<lambda>kind. io_return ''PNG''),
      scroll_into_view_if_needed = (\<lambda>post. io_return ()),
      query_selector = (\<lambda>post sel. io_return (Some (post + 10))),
      get_attribute = (\<lambda>btn name w.
        (Inr (if name = ''aria-pressed'' then Some (if w = 0 then ''false'' else ''true'')
              else if name = ''aria-label''
                then Some (if w = 0 then ''React Like'' else ''Unreact Like'')
              else Some ''react-button__trigger''), w)),
      evaluate_click = (\<lambda>btn w. (Inr (), Suc w)),
      asyncio_sleep = (\<lambda>seconds w. w),
      context_close = io_return (),
      browser_close = io_return (),
      b64encode = (\<lambda>png. ''UE5H'')\<rparr>"

text \<open>The same page, but the click changes the pressed state only: the label stays.\<close>

definition same_label_driver :: "(nat, nat) driver" where
  "same_label_driver =
     demo_driver\<lparr>get_attribute := (\<lambda>btn name w.
        (Inr (if name = ''aria-pressed'' then Some (if w = 0 then ''false'' else ''true'')
              else if name = ''aria-label'' then Some ''Like''
              else Some ''react-button__trigger''), w))\<rparr>"

text \<open>
  A feed without posts, on a page whose first screenshot times out.  The world counts the
  screenshot attempts.
\<close>

definition no_posts_driver :: "(nat, nat) driver" where
  "no_posts_driver =
     demo_driver\<lparr>page_query_selector_all := (\<lambda>sel. io_return []),
                 page_screenshot := (\<lambda>kind w.
                   if w = 0 then (Inl (DriverError ''Timeout 30000ms exceeded''), Suc w)
                   else (Inr ''PNG'', Suc w))\<rparr>"

text \<open>A page that was closed: the settle delay raises.\<close>

definition closed_page_driver :: "(nat, nat) driver" where
  "closed_page_driver =
     demo_driver\<lparr>page_wait_for_timeout := (\<lambda>ms.
        io_raise (DriverError ''Target page, context or browser has been closed''))\<rparr>"

text \<open>A host that does not resolve: every navigation raises.\<close>

definition unreachable_driver :: "(nat, nat) driver" where
  "unreachable_driver =
     demo_driver\<lparr>page_goto := (\<lambda>url wait_until.
        io_raise (DriverError ''net::ERR_NAME_NOT_RESOLVED''))\<rparr>"

text \<open>Actions used in the examples.\<close>

definition like_first :: jval where
  "like_first = JObj [(''type'', JStr ''like_post''), (''index'', JNum 1)]"

definition like_seventh :: jval where
  "like_seventh = JObj [(''type'', JStr ''like_post''), (''index'', JNum 7)]"

definition wait_action :: jval where
  "wait_action = JObj [(''type'', JStr ''wait''), (''timeout'', JNum 500)]"

definition press_no_selector :: jval where
  "press_no_selector = JObj [(''type'', JStr ''press''), (''key'', JStr ''Enter'')]"

definition comment_action :: jval where
  "comment_action =
     JObj [(''type'', JStr ''comment_post''), (''index'', JNum 1), (''text'', JStr ''Nice'')]"

definition fill_password_field :: jval where
  "fill_password_field =
     JObj [(''type'', JStr ''fill''), (''selector'', JStr ''input[name='session_password']''),
           (''text'', JStr ''YOUR_USERNAME'')]"

section \<open>Facts about sequencing\<close>

lemmas io_defs = io_bind_def io_return_def io_raise_def io_lift_def

lemma io_bind_Inr:
  "io_bind m f w = (Inr r, w') \<Longrightarrow> \<exists>x w1. m w = (Inr x, w1) \<and> f x w1 = (Inr r, w')"
  by (auto simp: io_bind_def split: prod.splits sum.splits)

lemma io_bind_NoneI:
  assumes "io_bind m f w = (Inr r, w')"
    and "\<And>x w1. f x w1 = (Inr r, w') \<Longrightarrow> r = None"
  shows "r = None"
  using io_bind_Inr [OF assms(1)] assms(2) by blast

lemma io_return_NoneI: "io_return None w = (Inr r, w') \<Longrightarrow> r = None"
  by (simp add: io_return_def)

lemma io_raise_NoneI: "io_raise e w = (Inr r, w') \<Longrightarrow> r = None"
  by (simp add: io_raise_def)

section \<open>Credential substitution\<close>

text \<open>
  When the pass over the plan finishes, the plan keeps its length and every action is the
  result of one iteration on the action at the same position.
\<close>

lemma substitute_all_nth:
  "substitute_all creds acts = Inr acts' \<Longrightarrow>
     length acts' = length acts \<and>
     (\<forall>i < length acts. substitute_action creds (acts ! i) = Inr (acts' ! i))"
proof (induction acts arbitrary: acts')
  case Nil
  then show ?case by simp
next
  case (Cons a as)
  from Cons.prems obtain a' as' where
    a: "substitute_action creds a = Inr a'" and
    as: "substitute_all creds as = Inr as'" and
    eq: "acts' = a' # as'"
    by (auto split: sum.splits)
  from Cons.IH [OF as] have
    len: "length as' = length as" and
    nth: "\<forall>i < length as. substitute_action creds (as ! i) = Inr (as' ! i)"
    by simp_all
  show ?case
  proof (intro conjI allI impI)
    show "length acts' = length (a # as)" using eq len by simp
  next
    fix i assume "i < length (a # as)"
    then show "substitute_action creds ((a # as) ! i) = Inr (acts' ! i)"
      using a nth eq by (cases i) simp_all
  qed
qed

lemma creds_up_nonempty: "creds_up \<noteq> []"
  by (simp add: creds_up_def)

lemma sub_fill_user:
  "substitute_action creds_up fill_user =
     Inr (JObj [(''type'', JStr ''fill''), (''selector'', JStr ''#user''), (''text'', JStr ''u'')])"
  by (simp add: substitute_action_def fill_user_def creds_up_def dict_getitem_def has_key_def
      dict_get_def)

lemma sub_fill_pass:
  "substitute_action creds_up fill_pass =
     Inr (JObj [(''type'', JStr ''fill''), (''selector'', JStr ''#pass''), (''text'', JStr ''p'')])"
  by (simp add: substitute_action_def fill_pass_def creds_up_def dict_getitem_def has_key_def
      dict_get_def lower_def lower_char_def)

text \<open>
  Claim C8.  With the credentials \<open>{username: "u", password: "p"}\<close>, whenever the
  substitution pass over a plan finishes, the plan keeps its length, every position that
  held the fill action on \<open>#user\<close> with text \<open>YOUR_USERNAME\<close> holds the same action
  with text \<open>u\<close>, and every position that held the fill action on \<open>#pass\<close> with
  text \<open>YOUR_PASSWORD\<close> holds the same action with text \<open>p\<close>; type and selector are
  unchanged.
\<close>

theorem substitution_example:
  assumes "substitute_credentials (Some creds_up) acts = Inr acts'"
  shows "length acts' = length acts \<and>
     (\<forall>i < length acts.
        (acts ! i = fill_user \<longrightarrow>
           acts' ! i = JObj [(''type'', JStr ''fill''), (''selector'', JStr ''#user''),
                             (''text'', JStr ''u'')]) \<and>
        (acts ! i = fill_pass \<longrightarrow>
           acts' ! i = JObj [(''type'', JStr ''fill''), (''selector'', JStr ''#pass''),
                             (''text'', JStr ''p'')]))"
proof -
  from assms have "substitute_all creds_up acts = Inr acts'"
    by (simp add: substitute_credentials_def creds_up_nonempty)
  from substitute_all_nth [OF this] show ?thesis
    using sub_fill_user sub_fill_pass by auto
qed

theorem substitution_example_witness:
  "substitute_credentials (Some creds_up) [fill_user, fill_pass] =
     Inr [JObj [(''type'', JStr ''fill''), (''selector'', JStr ''#user''), (''text'', JStr ''u'')],
          JObj [(''type'', JStr ''fill''), (''selector'', JStr ''#pass''), (''text'', JStr ''p'')]]
   \<and> [JObj [(''type'', JStr ''fill''), (''selector'', JStr ''#user''), (''text'', JStr ''u'')],
       JObj [(''type'', JStr ''fill''), (''selector'', JStr ''#pass''), (''text'', JStr ''p'')]] ! 0
      = JObj [(''type'', JStr ''fill''), (''selector'', JStr ''#user''), (''text'', JStr ''u'')]"
proof -
  have h: "substitute_credentials (Some creds_up) [fill_user, fill_pass] =
     Inr [JObj [(''type'', JStr ''fill''), (''selector'', JStr ''#user''), (''text'', JStr ''u'')],
          JObj [(''type'', JStr ''fill''), (''selector'', JStr ''#pass''), (''text'', JStr ''p'')]]"
    by (simp add: substitute_credentials_def sub_fill_user sub_fill_pass creds_up_nonempty)
  show ?thesis using h substitution_example [OF h] by simp
qed

text \<open>
  Claim C10.  With non-empty credentials, whenever the substitution pass finishes, a fill
  action whose text is \<open>YOUR_USERNAME\<close> has its text replaced by the username
  credential, whatever its selector is; a fill action whose text is not
  \<open>YOUR_USERNAME\<close> and whose selector contains \<open>password\<close> in lower case has its
  text replaced by the password credential.
\<close>

theorem username_sentinel_precedence:
  assumes "credentials \<noteq> []"
    and "substitute_credentials (Some credentials) acts = Inr acts'"
    and "i < length acts"
    and "acts ! i = JObj kvs"
    and "map_of kvs ''type'' = Some (JStr ''fill'')"
  shows "(map_of kvs ''text'' = Some (JStr ''YOUR_USERNAME'') \<longrightarrow>
            acts' ! i = JObj (AList.update ''text''
                               (dict_get credentials ''username'' (JStr [])) kvs))
       \<and> (map_of kvs ''text'' \<noteq> Some (JStr ''YOUR_USERNAME'') \<longrightarrow>
            map_of kvs ''selector'' = Some (JStr sel) \<longrightarrow>
            contains_str ''password'' (lower sel) \<longrightarrow>
            acts' ! i = JObj (AList.update ''text''
                               (dict_get credentials ''password'' (JStr [])) kvs))"
proof -
  from assms(1,2) have "substitute_all credentials acts = Inr acts'"
    by (simp add: substitute_credentials_def)
  from substitute_all_nth [OF this] assms(3,4)
  have step: "substitute_action credentials (JObj kvs) = Inr (acts' ! i)"
    by auto
  show ?thesis
    using step assms(5)
    by (auto simp: substitute_action_def dict_getitem_def has_key_def)
qed

theorem username_sentinel_precedence_witness:
  "substitute_credentials (Some creds_up) [fill_password_field] =
     Inr [JObj [(''type'', JStr ''fill''), (''selector'', JStr ''input[name='session_password']''),
                (''text'', JStr ''u'')]]
   \<and> contains_str ''password'' (lower ''input[name='session_password']'')"
proof -
  have sel: "contains_str ''password'' (lower ''input[name='session_password']'')"
    by (simp add: lower_def lower_char_def)
  have run: "substitute_credentials (Some creds_up) [fill_password_field] =
     Inr [JObj [(''type'', JStr ''fill''), (''selector'', JStr ''input[name='session_password']''),
                (''text'', JStr ''u'')]]"
    by (simp add: substitute_credentials_def substitute_action_def fill_password_field_def
        creds_up_def dict_getitem_def has_key_def dict_get_def)
  have "[JObj [(''type'', JStr ''fill''), (''selector'', JStr ''input[name='session_password']''),
                (''text'', JStr ''u'')]] ! 0
        = JObj (AList.update ''text'' (dict_get creds_up ''username'' (JStr []))
             [(''type'', JStr ''fill''), (''selector'', JStr ''input[name='session_password']''),
              (''text'', JStr ''YOUR_USERNAME'')])"
    using username_sentinel_precedence [OF creds_up_nonempty run, of 0
        "[(''type'', JStr ''fill''), (''selector'', JStr ''input[name='session_password']''),
          (''text'', JStr ''YOUR_USERNAME'')]" "''input[name='session_password']''"]
    by (simp add: fill_password_field_def)
  then show ?thesis using sel run by simp
qed

section \<open>Single steps of the executor\<close>

text \<open>Every branch of the chain other than \<^verbatim>\<open>like_post\<close> falls out of the chain or raises.\<close>

lemma dispatch_falls_through:
  assumes "t \<noteq> JStr ''like_post''" and "dispatch d t kvs w = (Inr r, w')"
  shows "r = None"
  using assms
  unfolding dispatch_def
  apply (simp split: if_splits)
  apply ((erule io_bind_NoneI | erule io_return_NoneI | erule io_raise_NoneI)+)
  done

lemma demo_wait_step:
  "run_step demo_driver wait_action w =
     (Inr \<lparr>step_action = wait_action, step_success = True, step_error = None,
          step_screenshot = None\<rparr>, w)"
  by (simp add: run_step_def run_action_def dispatch_def wait_action_def demo_driver_def
      dict_getitem_def io_defs)

text \<open>
  Claim C5.  A press action without a \<open>selector\<close> field gives a failed step whose error
  is the text \<open>Press action requires a selector parameter\<close>; the only driver call of
  the step is the screenshot of the failure handler, which is attached when it succeeds;
  the loop appends the step and goes on with the remaining actions.
\<close>

theorem press_without_selector:
  assumes "map_of kvs ''type'' = Some (JStr ''press'')"
    and "\<not> has_key kvs ''selector''"
  shows "let shot = page_screenshot d ShotPng w;
             step = \<lparr>step_action = JObj kvs, step_success = False,
                     step_error = Some ''Press action requires a selector parameter'',
                     step_screenshot =
                       (case fst shot of Inr png \<Rightarrow> Some (b64encode d png) | Inl e \<Rightarrow> None)\<rparr>
         in run_step d (JObj kvs) w = (Inr step, snd shot)
          \<and> run_loop d (JObj kvs # rest) steps w = run_loop d rest (steps @ [step]) (snd shot)"
proof -
  have ra: "run_action d (JObj kvs) w
              = (Inl (PyException ''Press action requires a selector parameter''), w)"
    using assms
    by (simp add: run_action_def dispatch_def dict_getitem_def io_defs)
  show ?thesis
    by (cases "page_screenshot d ShotPng w")
       (auto simp: run_step_def ra Let_def split: sum.splits)
qed

theorem press_without_selector_witness:
  "run_loop demo_driver [press_no_selector, wait_action] [] 0 =
     (Completed
        [\<lparr>step_action = press_no_selector, step_success = False,
          step_error = Some ''Press action requires a selector parameter'',
          step_screenshot = Some ''UE5H''\<rparr>,
         \<lparr>step_action = wait_action, step_success = True, step_error = None,
          step_screenshot = None\<rparr>], 0)"
proof -
  have t: "map_of [(''type'', JStr ''press''), (''key'', JStr ''Enter'')] ''type''
             = Some (JStr ''press'')"
    by simp
  have s: "\<not> has_key [(''type'', JStr ''press''), (''key'', JStr ''Enter'')] ''selector''"
    by (simp add: has_key_def)
  have shot: "page_screenshot demo_driver ShotPng 0 = (Inr ''PNG'', 0)"
    by (simp add: demo_driver_def io_return_def)
  have enc: "b64encode demo_driver ''PNG'' = ''UE5H''"
    by (simp add: demo_driver_def)
  show ?thesis
    using press_without_selector [OF t s, of demo_driver 0 "[wait_action]" "[]"]
    by (simp add: Let_def shot enc press_no_selector_def [symmetric] demo_wait_step)
qed

text \<open>
  Claim C7, as amended.  An action whose \<open>type\<close> is present and is none of the nine
  implemented kinds makes no driver call except the settle delay of 1000 ms.  When that
  delay returns, the step is recorded as successful, without error and without screenshot,
  in the world the delay leaves.  When the delay raises, the step is recorded as failed
  with the delay's error.
\<close>

theorem unknown_action_step:
  assumes "map_of kvs ''type'' = Some t"
    and "t \<notin> JStr ` {''navigate'', ''click'', ''fill'', ''press'', ''wait'', ''scroll'',
                      ''login'', ''search'', ''like_post''}"
  shows "(\<forall>w'. page_wait_for_timeout d (JNum 1000) w = (Inr (), w') \<longrightarrow>
            run_step d (JObj kvs) w =
              (Inr \<lparr>step_action = JObj kvs, step_success = True, step_error = None,
                    step_screenshot = None\<rparr>, w'))
       \<and> (\<forall>e w'. page_wait_for_timeout d (JNum 1000) w = (Inl e, w') \<longrightarrow>
            (\<exists>step. run_step d (JObj kvs) w = (Inr step, snd (page_screenshot d ShotPng w'))
                \<and> step_action step = JObj kvs \<and> step_success step = False
                \<and> step_error step = Some (str_exn e)))"
proof -
  have dsp: "dispatch d t kvs w = (Inr None, w)"
    using assms(2) by (simp add: dispatch_def io_return_def)
  have ra: "run_action d (JObj kvs) w =
              (case page_wait_for_timeout d (JNum 1000) w of
                 (Inl e, w') \<Rightarrow> (Inl e, w')
               | (Inr u, w') \<Rightarrow> (Inr None, w'))"
    using assms(1) dsp
    by (simp add: run_action_def dict_getitem_def io_defs split: prod.splits sum.splits)
  show ?thesis
  proof (intro conjI allI impI)
    fix w' assume "page_wait_for_timeout d (JNum 1000) w = (Inr (), w')"
    then show "run_step d (JObj kvs) w =
              (Inr \<lparr>step_action = JObj kvs, step_success = True, step_error = None,
                    step_screenshot = None\<rparr>, w')"
      by (simp add: run_step_def ra)
  next
    fix e w' assume "page_wait_for_timeout d (JNum 1000) w = (Inl e, w')"
    then show "\<exists>step. run_step d (JObj kvs) w = (Inr step, snd (page_screenshot d ShotPng w'))
                \<and> step_action step = JObj kvs \<and> step_success step = False
                \<and> step_error step = Some (str_exn e)"
      by (cases "page_screenshot d ShotPng w'") (auto simp: run_step_def ra split: sum.splits)
  qed
qed

theorem unknown_action_step_witness:
  "run_step demo_driver comment_action 0 =
     (Inr \<lparr>step_action = comment_action, step_success = True, step_error = None,
           step_screenshot = None\<rparr>, 0)"
proof -
  have t: "map_of [(''type'', JStr ''comment_post''), (''index'', JNum 1),
                   (''text'', JStr ''Nice'')] ''type'' = Some (JStr ''comment_post'')"
    by simp
  have n: "JStr ''comment_post'' \<notin> JStr ` {''navigate'', ''click'', ''fill'', ''press'',
             ''wait'', ''scroll'', ''login'', ''search'', ''like_post''}"
    by simp
  have d: "page_wait_for_timeout demo_driver (JNum 1000) 0 = (Inr (), 0)"
    by (simp add: demo_driver_def io_return_def)
  show ?thesis
    using unknown_action_step [OF t n, of demo_driver 0] d
    by (simp add: comment_action_def)
qed

text \<open>
  On a page that has been closed the settle delay raises, and the step of a
  \<open>comment_post\<close> action is recorded as failed.
\<close>

theorem unknown_action_fails_counterexample:
  "run_step closed_page_driver comment_action 0 =
     (Inr \<lparr>step_action = comment_action, step_success = False,
           step_error = Some ''Target page, context or browser has been closed'',
           step_screenshot = Some ''UE5H''\<rparr>, 0)"
  by (simp add: run_step_def run_action_def dispatch_def comment_action_def
      closed_page_driver_def demo_driver_def dict_getitem_def io_defs)

text \<open>
  A step whose action is not a \<open>like_post\<close> never returns from the function: it
  appends one step for its action, whether its handler raised or not.
\<close>

lemma run_action_not_like:
  assumes "action_type_of a \<noteq> Inr (JStr ''like_post'')"
    and "run_action d a w = (Inr r, w')"
  shows "r = None"
proof (cases a)
  case (JObj kvs)
  with assms(2) obtain t where
    t: "dict_getitem kvs ''type'' = Inr t" and
    rest: "io_bind (dispatch d t kvs) (\<lambda>r. case r of
              Some res \<Rightarrow> io_return (Some res)
            | None \<Rightarrow> io_bind (page_wait_for_timeout d (JNum 1000)) (\<lambda>_. io_return None)) w
           = (Inr r, w')"
    by (auto simp: run_action_def io_bind_def io_lift_def split: sum.splits)
  from t assms(1) JObj have ne: "t \<noteq> JStr ''like_post''"
    by (auto simp: action_type_of_def)
  from io_bind_Inr [OF rest] obtain x w2 where
    dx: "dispatch d t kvs w = (Inr x, w2)" and
    k: "(case x of Some res \<Rightarrow> io_return (Some res)
          | None \<Rightarrow> io_bind (page_wait_for_timeout d (JNum 1000)) (\<lambda>_. io_return None)) w2
        = (Inr r, w')"
    by blast
  from dispatch_falls_through [OF ne dx] have "x = None" .
  with k show ?thesis
    by (auto simp: io_bind_def io_return_def split: prod.splits sum.splits)
qed (use assms(2) in \<open>auto simp: run_action_def io_raise_def\<close>)

lemma run_step_not_like:
  assumes "action_type_of a \<noteq> Inr (JStr ''like_post'')"
  shows "\<exists>step w'. run_step d a w = (Inr step, w') \<and> step_action step = a"
proof (cases "run_action d a w")
  case (Pair r w1)
  show ?thesis
  proof (cases r)
    case (Inl e)
    with Pair show ?thesis
      by (cases "page_screenshot d ShotPng w1") (auto simp: run_step_def split: sum.splits)
  next
    case (Inr x)
    with Pair run_action_not_like [OF assms, of d w x w1] have "x = None" by simp
    with Pair Inr show ?thesis
      by (simp add: run_step_def)
  qed
qed

lemma run_loop_not_like:
  assumes "\<forall>a \<in> set actions. action_type_of a \<noteq> Inr (JStr ''like_post'')"
  shows "\<exists>new w'. run_loop d actions steps w = (Completed (steps @ new), w')
            \<and> map step_action new = actions"
  using assms
proof (induction actions arbitrary: steps w)
  case Nil
  then show ?case by simp
next
  case (Cons a as)
  from Cons.prems have "action_type_of a \<noteq> Inr (JStr ''like_post'')" by simp
  from run_step_not_like [OF this, of d w] obtain step w1 where
    s: "run_step d a w = (Inr step, w1)" and sa: "step_action step = a"
    by blast
  from Cons.prems have "\<forall>a \<in> set as. action_type_of a \<noteq> Inr (JStr ''like_post'')" by simp
  from Cons.IH [OF this, of "steps @ [step]" w1] obtain new w' where
    l: "run_loop d as (steps @ [step]) w1 = (Completed ((steps @ [step]) @ new), w')" and
    m: "map step_action new = as"
    by blast
  have "run_loop d (a # as) steps w = (Completed (steps @ (step # new)), w')
        \<and> map step_action (step # new) = a # as"
    using s l sa m by simp
  then show ?case by (intro exI)
qed

text \<open>The outer try with its handler, by the way the body ends.\<close>

lemma try_except_nav_failed:
  assumes "initial_navigation d url w = (Inl e, w1)"
  shows "try_except d actions url w = except_handler d e w1"
  using assms by (simp add: try_except_def try_body_def io_bind_def)

lemma try_except_returned:
  assumes "initial_navigation d url w = (Inr u, w1)"
    and "run_loop d actions [] w1 = (Returned res, w2)"
  shows "try_except d actions url w = (LikeDict res, w2)"
  using assms by (simp add: try_except_def try_body_def io_bind_def)

lemma try_except_completed:
  assumes "initial_navigation d url w = (Inr u, w1)"
    and "run_loop d actions [] w1 = (Completed steps, w2)"
  shows "try_except d actions url w =
      (case page_screenshot d ShotFullPage w2 of
         (Inr png, w3) \<Rightarrow>
           (Response \<lparr>success = True, message = ''Automation completed'', data = Some steps,
              screenshot = Some (''data:image/png;base64,'' @ b64encode d png)\<rparr>, w3)
       | (Inl e, w3) \<Rightarrow> except_handler d e w3)"
  using assms
  by (simp add: try_except_def try_body_def io_bind_def io_return_def
      split: prod.splits sum.splits)

lemma except_handler_response:
  "\<exists>r w'. except_handler d e w = (Response r, w') \<and> \<not> success r \<and> data r = None
      \<and> message r = ''Automation failed: '' @ str_exn e"
  by (cases "page_screenshot d ShotPng w") (auto simp: except_handler_def split: sum.splits)

section \<open>The loop and the whole request\<close>

text \<open>
  Claim C2.  When no action of the plan has the type \<open>like_post\<close>, the loop runs to
  its end from any world and with any driver, and its trail holds exactly one step per
  action, in the order of the plan; this includes the actions whose handler raises.  The
  outer try then always yields a response: a successful one carries that trail, and a
  failed one (the initial navigation or the final screenshot raised) carries no trail.
\<close>

theorem one_step_per_action:
  assumes "\<forall>a \<in> set actions. action_type_of a \<noteq> Inr (JStr ''like_post'')"
  shows "(\<exists>steps w'. run_loop d actions [] w = (Completed steps, w')
            \<and> length steps = length actions \<and> map step_action steps = actions)
       \<and> (\<exists>r w'. try_except d actions url w = (Response r, w')
            \<and> (if success r
                then \<exists>steps. data r = Some steps \<and> length steps = length actions
                       \<and> map step_action steps = actions
                else data r = None))"
proof (rule conjI)
  have loop: "\<exists>steps w'. run_loop d actions [] w0 = (Completed steps, w')
            \<and> length steps = length actions \<and> map step_action steps = actions" for w0
  proof -
    from run_loop_not_like [OF assms, of d "[]" w0] obtain new w' where
      r: "run_loop d actions [] w0 = (Completed new, w')" and m: "map step_action new = actions"
      by auto
    from m have "length new = length actions" by (metis length_map)
    with r m show ?thesis by blast
  qed
  show "\<exists>steps w'. run_loop d actions [] w = (Completed steps, w')
            \<and> length steps = length actions \<and> map step_action steps = actions"
    by (rule loop)
  show "\<exists>r w'. try_except d actions url w = (Response r, w')
            \<and> (if success r
                then \<exists>steps. data r = Some steps \<and> length steps = length actions
                       \<and> map step_action steps = actions
                else data r = None)"
  proof (cases "initial_navigation d url w")
    case (Pair nav w1)
    show ?thesis
    proof (cases nav)
      case (Inl e)
      with Pair have "try_except d actions url w = except_handler d e w1"
        by (simp add: try_except_nav_failed)
      with except_handler_response [of d e w1] show ?thesis by auto
    next
      case (Inr u)
      from loop [of w1] obtain steps w2 where
        r: "run_loop d actions [] w1 = (Completed steps, w2)" and
        l: "length steps = length actions" and m: "map step_action steps = actions"
        by blast
      from Pair Inr r have te: "try_except d actions url w =
        (case page_screenshot d ShotFullPage w2 of
           (Inr png, w3) \<Rightarrow>
             (Response \<lparr>success = True, message = ''Automation completed'', data = Some steps,
                screenshot = Some (''data:image/png;base64,'' @ b64encode d png)\<rparr>, w3)
         | (Inl e, w3) \<Rightarrow> except_handler d e w3)"
        by (simp add: try_except_completed)
      show ?thesis
      proof (cases "page_screenshot d ShotFullPage w2")
        case (Pair sh w3)
        show ?thesis
        proof (cases sh)
          case (Inl e)
          with Pair te have "try_except d actions url w = except_handler d e w3" by simp
          with except_handler_response [of d e w3] show ?thesis by auto
        next
          case (Inr png)
          with Pair te l m show ?thesis by simp
        qed
      qed
    qed
  qed
qed

lemma demo_press_step:
  "run_step demo_driver press_no_selector w =
     (Inr \<lparr>step_action = press_no_selector, step_success = False,
          step_error = Some ''Press action requires a selector parameter'',
          step_screenshot = Some ''UE5H''\<rparr>, w)"
  by (simp add: run_step_def run_action_def dispatch_def press_no_selector_def demo_driver_def
      dict_getitem_def has_key_def io_defs)

theorem one_step_per_action_witness:
  "try_except demo_driver [press_no_selector, wait_action] JNull 0 =
     (Response \<lparr>success = True, message = ''Automation completed'',
        data = Some
          [\<lparr>step_action = press_no_selector, step_success = False,
            step_error = Some ''Press action requires a selector parameter'',
            step_screenshot = Some ''UE5H''\<rparr>,
           \<lparr>step_action = wait_action, step_success = True, step_error = None,
            step_screenshot = None\<rparr>],
        screenshot = Some ''data:image/png;base64,UE5H''\<rparr>, 0)"
proof -
  have h: "\<forall>a \<in> set [press_no_selector, wait_action].
             action_type_of a \<noteq> Inr (JStr ''like_post'')"
    by (simp add: press_no_selector_def wait_action_def action_type_of_def dict_getitem_def)
  have nav: "initial_navigation demo_driver JNull 0 = (Inr (), 0)"
    by (simp add: initial_navigation_def)
  have loop: "run_loop demo_driver [press_no_selector, wait_action] [] 0 =
     (Completed
        [\<lparr>step_action = press_no_selector, step_success = False,
          step_error = Some ''Press action requires a selector parameter'',
          step_screenshot = Some ''UE5H''\<rparr>,
         \<lparr>step_action = wait_action, step_success = True, step_error = None,
          step_screenshot = None\<rparr>], 0)"
    by (simp add: demo_press_step demo_wait_step)
  have shot: "page_screenshot demo_driver ShotFullPage 0 = (Inr ''PNG'', 0)"
    by (simp add: demo_driver_def io_return_def)
  have enc: "b64encode demo_driver ''PNG'' = ''UE5H''"
    by (simp add: demo_driver_def)
  have run: "try_except demo_driver [press_no_selector, wait_action] JNull 0 =
     (Response \<lparr>success = True, message = ''Automation completed'',
        data = Some
          [\<lparr>step_action = press_no_selector, step_success = False,
            step_error = Some ''Press action requires a selector parameter'',
            step_screenshot = Some ''UE5H''\<rparr>,
           \<lparr>step_action = wait_action, step_success = True, step_error = None,
            step_screenshot = None\<rparr>],
        screenshot = Some ''data:image/png;base64,UE5H''\<rparr>, 0)"
    by (simp add: try_except_completed [OF nav loop] shot enc)
  show ?thesis
    using run one_step_per_action [OF h, of demo_driver 0 JNull] by simp
qed

text \<open>
  The loop over a plan in two parts, and the step of a \<open>like_post\<close> action in terms
  of the branch.
\<close>

lemma run_loop_append:
  "run_loop d (xs @ ys) steps w =
     (case run_loop d xs steps w of
        (Completed st, w') \<Rightarrow> run_loop d ys st w'
      | (Returned r, w') \<Rightarrow> (Returned r, w'))"
proof (induction xs arbitrary: steps w)
  case Nil
  show ?case by simp
next
  case (Cons a as)
  show ?case
  proof (cases "run_step d a w")
    case (Pair r w1)
    then show ?thesis using Cons.IH by (cases r) simp_all
  qed
qed

lemma run_step_like:
  assumes "map_of kvs ''type'' = Some (JStr ''like_post'')"
  shows "run_step d (JObj kvs) w =
     (case like_post d kvs w of
        (Inr res, w1) \<Rightarrow> (Inl res, w1)
      | (Inl e, w1) \<Rightarrow>
          (case page_screenshot d ShotPng w1 of
             (Inr png, w2) \<Rightarrow>
               (Inr \<lparr>step_action = JObj kvs, step_success = False,
                     step_error = Some (str_exn e),
                     step_screenshot = Some (b64encode d png)\<rparr>, w2)
           | (Inl _, w2) \<Rightarrow>
               (Inr \<lparr>step_action = JObj kvs, step_success = False,
                     step_error = Some (str_exn e), step_screenshot = None\<rparr>, w2)))"
proof -
  have "run_action d (JObj kvs) w =
          (case like_post d kvs w of (Inr res, w1) \<Rightarrow> (Inr (Some res), w1)
                                   | (Inl e, w1) \<Rightarrow> (Inl e, w1))"
    using assms
    by (simp add: run_action_def dispatch_def dict_getitem_def io_defs
        split: prod.splits sum.splits)
  then show ?thesis
    by (simp add: run_step_def split: prod.splits sum.splits)
qed

section \<open>The \<^verbatim>\<open>like_post\<close> branch\<close>

text \<open>
  The two \<^verbatim>\<open>return\<close> statements of the branch.  Let the plan reach a
  \<open>like_post\<close> action after a prefix whose steps all completed.  When the like
  succeeds, and when it fails and the handler of lines 288 to 297 gets its screenshot, the
  outer try ends with the dict of the branch: no trail is returned, no step is appended for
  the action, and the result and the final world do not depend on the actions after it.
\<close>

lemma like_post_returns_dict:
  assumes "map_of kvs ''type'' = Some (JStr ''like_post'')"
    and "initial_navigation d url w = (Inr (), wn)"
    and "run_loop d pre [] wn = (Completed steps0, w0)"
  shows "(\<forall>cur new w1. like_body d kvs w0 = (Inr (cur, new), w1) \<longrightarrow>
            try_except d (pre @ JObj kvs # rest) url w =
              (LikeDict \<lparr>like_success = True, like_message = ''Successfully liked post'',
                         like_debug = DebugStates cur new\<rparr>, w1))
       \<and> (\<forall>e w1 png w2. like_body d kvs w0 = (Inl e, w1) \<longrightarrow>
            page_screenshot d ShotDefault w1 = (Inr png, w2) \<longrightarrow>
            try_except d (pre @ JObj kvs # rest) url w =
              (LikeDict \<lparr>like_success = False, like_message = str_exn e,
                         like_debug = DebugError (str_exn e) (b64encode d png)\<rparr>, w2))"
proof -
  have ret: "try_except d (pre @ JObj kvs # rest) url w = (LikeDict res, w')"
    if "like_post d kvs w0 = (Inr res, w')" for res w'
  proof -
    from that have "run_step d (JObj kvs) w0 = (Inl res, w')"
      by (simp add: run_step_like [OF assms(1)])
    then have "run_loop d (JObj kvs # rest) steps0 w0 = (Returned res, w')"
      by simp
    with assms(3) have "run_loop d (pre @ JObj kvs # rest) [] wn = (Returned res, w')"
      by (simp add: run_loop_append)
    with assms(2) show ?thesis
      by (rule try_except_returned)
  qed
  show ?thesis
  proof (intro conjI allI impI)
    fix cur new w1
    assume "like_body d kvs w0 = (Inr (cur, new), w1)"
    then have "like_post d kvs w0 =
        (Inr \<lparr>like_success = True, like_message = ''Successfully liked post'',
              like_debug = DebugStates cur new\<rparr>, w1)"
      by (simp add: like_post_def)
    then show "try_except d (pre @ JObj kvs # rest) url w =
              (LikeDict \<lparr>like_success = True, like_message = ''Successfully liked post'',
                         like_debug = DebugStates cur new\<rparr>, w1)"
      by (rule ret)
  next
    fix e w1 png w2
    assume "like_body d kvs w0 = (Inl e, w1)"
      and "page_screenshot d ShotDefault w1 = (Inr png, w2)"
    then have "like_post d kvs w0 =
        (Inr \<lparr>like_success = False, like_message = str_exn e,
              like_debug = DebugError (str_exn e) (b64encode d png)\<rparr>, w2)"
      by (simp add: like_post_def)
    then show "try_except d (pre @ JObj kvs # rest) url w =
              (LikeDict \<lparr>like_success = False, like_message = str_exn e,
                         like_debug = DebugError (str_exn e) (b64encode d png)\<rparr>, w2)"
      by (rule ret)
  qed
qed

lemmas like_defs = like_body_def like_on_post_def find_like_button_def button_snapshot_def
  select_post_def post_index_def py_minus_one_def list_getitem_def dict_get_def or_null_def
  state_unchanged_def feed_selector_def posts_selector_def

lemma demo_like_body:
  "like_body demo_driver [(''type'', JStr ''like_post''), (''index'', JNum 1)] 0 =
     (Inr (\<lparr>aria_pressed = ''false'', aria_label = ''React Like'',
             classes = ''react-button__trigger''\<rparr>,
           \<lparr>aria_pressed = ''true'', aria_label = ''Unreact Like'',
             classes = ''react-button__trigger''\<rparr>), 1)"
  by (simp add: like_defs demo_driver_def io_defs Let_def)

lemma demo_like_returns_dict:
  "try_except demo_driver ([wait_action] @ like_first # [wait_action]) JNull 0 =
     (LikeDict \<lparr>like_success = True, like_message = ''Successfully liked post'',
        like_debug = DebugStates
          \<lparr>aria_pressed = ''false'', aria_label = ''React Like'',
            classes = ''react-button__trigger''\<rparr>
          \<lparr>aria_pressed = ''true'', aria_label = ''Unreact Like'',
            classes = ''react-button__trigger''\<rparr>\<rparr>, 1)"
proof -
  have t: "map_of [(''type'', JStr ''like_post''), (''index'', JNum 1)] ''type''
             = Some (JStr ''like_post'')"
    by simp
  have nav: "initial_navigation demo_driver JNull 0 = (Inr (), 0)"
    by (simp add: initial_navigation_def)
  have pre: "run_loop demo_driver [wait_action] [] 0 =
     (Completed [\<lparr>step_action = wait_action, step_success = True, step_error = None,
                  step_screenshot = None\<rparr>], 0)"
    by (simp add: demo_wait_step)
  show ?thesis
    using like_post_returns_dict [OF t nav pre, of "[wait_action]"] demo_like_body
    by (simp add: like_first_def)
qed

text \<open>
  Claim C3.  The code at an input where the claim and the code differ: the plan is a
  \<open>like_post\<close> action followed by a \<open>wait\<close> action, the feed has no posts, and
  the first screenshot of the page times out.  The like fails with \<open>No posts found\<close>;
  the handler of lines 288 to 297 calls \<^verbatim>\<open>page.screenshot()\<close> unguarded, the call
  raises, and the exception reaches the handler of the step at line 302.  The executor
  does not return the dict of the branch: it appends a failed step for the
  \<open>like_post\<close> action, whose error is the screenshot's and not the like's, runs the
  \<open>wait\<close> action after it, and returns the aggregate response with a trail of two
  steps.
\<close>

theorem like_post_failure_appends_step:
  "execute_actions no_posts_driver [like_first, wait_action] JNull 0 =
     (Inr (Response \<lparr>success = True, message = ''Automation completed'',
        data = Some
          [\<lparr>step_action = like_first, step_success = False,
            step_error = Some ''Timeout 30000ms exceeded'',
            step_screenshot = Some ''UE5H''\<rparr>,
           \<lparr>step_action = wait_action, step_success = True, step_error = None,
            step_screenshot = None\<rparr>],
        screenshot = Some ''data:image/png;base64,UE5H''\<rparr>), 3)"
proof -
  have body: "like_body no_posts_driver [(''type'', JStr ''like_post''), (''index'', JNum 1)] 0 =
      (Inl (PyException ''No posts found - may need different selectors''), 0)"
    by (simp add: like_body_def no_posts_driver_def demo_driver_def io_defs)
  have like: "like_post no_posts_driver [(''type'', JStr ''like_post''), (''index'', JNum 1)] 0 =
      (Inl (DriverError ''Timeout 30000ms exceeded''), 1)"
    by (simp add: like_post_def body) (simp add: no_posts_driver_def)
  have s1: "run_step no_posts_driver like_first 0 =
      (Inr \<lparr>step_action = like_first, step_success = False,
            step_error = Some ''Timeout 30000ms exceeded'',
            step_screenshot = Some ''UE5H''\<rparr>, 2)"
    unfolding like_first_def
    by (simp add: run_step_like like) (simp add: no_posts_driver_def demo_driver_def)
  have s2: "run_step no_posts_driver wait_action 2 =
      (Inr \<lparr>step_action = wait_action, step_success = True, step_error = None,
            step_screenshot = None\<rparr>, 2)"
    by (simp add: run_step_def run_action_def dispatch_def wait_action_def no_posts_driver_def
      demo_driver_def dict_getitem_def io_defs)
  have nav: "initial_navigation no_posts_driver JNull 0 = (Inr (), 0)"
    by (simp add: initial_navigation_def)
  have loop: "run_loop no_posts_driver [like_first, wait_action] [] 0 =
     (Completed
          [\<lparr>step_action = like_first, step_success = False,
            step_error = Some ''Timeout 30000ms exceeded'',
            step_screenshot = Some ''UE5H''\<rparr>,
           \<lparr>step_action = wait_action, step_success = True, step_error = None,
            step_screenshot = None\<rparr>], 2)"
    by (simp add: s1 s2)
  have te: "try_except no_posts_driver [like_first, wait_action] JNull 0 =
     (Response \<lparr>success = True, message = ''Automation completed'',
        data = Some
          [\<lparr>step_action = like_first, step_success = False,
            step_error = Some ''Timeout 30000ms exceeded'',
            step_screenshot = Some ''UE5H''\<rparr>,
           \<lparr>step_action = wait_action, step_success = True, step_error = None,
            step_screenshot = None\<rparr>],
        screenshot = Some ''data:image/png;base64,UE5H''\<rparr>, 3)"
    by (simp add: try_except_completed [OF nav loop]) (simp add: no_posts_driver_def demo_driver_def)
  have open_ok: "chromium_launch no_posts_driver w = (Inr (), w)"
    "new_context no_posts_driver w = (Inr (), w)"
    "new_page no_posts_driver w = (Inr (), w)" for w
    by (simp_all add: no_posts_driver_def demo_driver_def io_return_def)
  have fin: "finally_block no_posts_driver w = (Inr (), w)" for w
    by (simp add: finally_block_def no_posts_driver_def demo_driver_def io_defs)
  show ?thesis
    by (simp add: execute_actions_def io_bind_def io_return_def open_ok fin te)
qed

text \<open>
  Claim C4.  When the feed has at least one post and the integer index of the action is
  larger than the number of posts, line 223 yields the index of the last post, the
  subscript of line 226 yields the last post without raising, and the branch goes on with
  that post exactly as lines 227 to 276 do for it.
\<close>

theorem like_post_index_clamped:
  assumes "dict_get action ''index'' (JNum 1) = JNum n"
    and "int (length posts) < n"
    and "posts \<noteq> []"
  shows "post_index action posts = Inr (int (length posts) - 1)
       \<and> select_post action posts = Inr (last posts)
       \<and> (\<forall>w w1 w2. page_wait_for_selector d (JStr feed_selector) 15000 w = (Inr (), w1) \<longrightarrow>
             page_query_selector_all d posts_selector w1 = (Inr posts, w2) \<longrightarrow>
             like_body d action w = like_on_post d (last posts) w2)"
proof -
  have pi: "post_index action posts = Inr (int (length posts) - 1)"
    using assms(1,2) by (simp add: post_index_def py_minus_one_def)
  have "0 < length posts" using assms(3) by simp
  then have sp: "select_post action posts = Inr (last posts)"
    using pi by (simp add: select_post_def list_getitem_def Let_def last_conv_nth nat_diff_distrib')
  show ?thesis
    using pi sp assms(3) by (simp add: like_body_def io_defs)
qed

theorem like_post_index_clamped_witness:
  "select_post [(''type'', JStr ''like_post''), (''index'', JNum 7)] [0, 1, 2 :: nat] = Inr 2
   \<and> like_body demo_driver [(''type'', JStr ''like_post''), (''index'', JNum 7)] 0
       = like_on_post demo_driver 2 0"
proof -
  have i: "dict_get [(''type'', JStr ''like_post''), (''index'', JNum 7)] ''index'' (JNum 1)
             = JNum 7"
    by (simp add: dict_get_def)
  have n: "int (length [0, 1, 2 :: nat]) < 7" by simp
  have p: "[0, 1, 2 :: nat] \<noteq> []" by simp
  have w: "page_wait_for_selector demo_driver (JStr feed_selector) 15000 0 = (Inr (), 0)"
    by (simp add: demo_driver_def io_return_def)
  have q: "page_query_selector_all demo_driver posts_selector 0 = (Inr [0, 1, 2], 0)"
    by (simp add: demo_driver_def io_return_def)
  show ?thesis
    using like_post_index_clamped [OF i n p, of demo_driver] w q by simp
qed

text \<open>
  Claim C1.  The code at an input where the claim and the code differ: the click changes
  \<open>aria-pressed\<close> from \<open>false\<close> to \<open>true\<close> and leaves \<open>aria-label\<close>
  as it was.  One of the two attributes changed, yet the branch raises its
  \<open>button state unchanged\<close> error and returns the failure dict.
\<close>

theorem like_post_label_unchanged:
  "like_post same_label_driver [(''type'', JStr ''like_post''), (''index'', JNum 1)] 0 =
     (Inr \<lparr>like_success = False,
           like_message = ''Like action didn't register - button state unchanged'',
           like_debug =
             DebugError ''Like action didn't register - button state unchanged'' ''UE5H''\<rparr>, 1)"
proof -
  have "like_body same_label_driver [(''type'', JStr ''like_post''), (''index'', JNum 1)] 0 =
     (Inl (PyException ''Like action didn't register - button state unchanged''), 1)"
    by (simp add: like_defs same_label_driver_def demo_driver_def io_defs Let_def)
  then show ?thesis
    by (simp add: like_post_def) (simp add: same_label_driver_def demo_driver_def io_defs)
qed

section \<open>Initial navigation and teardown\<close>

text \<open>
  Claim C6.  When a starting URL is given and the navigation to it raises (the
  \<^verbatim>\<open>goto\<close> call, or the wait for the load state after it), the outer try yields a
  failed response without trail, whose message is the text of the navigation error, with
  the handler's screenshot when it can be taken and without one otherwise.  The result and
  the final world do not mention the plan: no action is executed.
\<close>

theorem initial_navigation_failure:
  assumes "py_truthy url"
    and "page_goto d url ''domcontentloaded'' w = (Inl e, w1)
         \<or> (\<exists>w0. page_goto d url ''domcontentloaded'' w = (Inr (), w0)
                \<and> page_wait_for_load_state d w0 = (Inl e, w1))"
  shows "let err = HTTPException 500 (''Failed to navigate to starting URL: '' @ str_exn e);
             shot = page_screenshot d ShotPng w1
         in try_except d actions url w =
              (Response \<lparr>success = False, message = ''Automation failed: '' @ str_exn err,
                 data = None,
                 screenshot =
                   (case fst shot of
                      Inr png \<Rightarrow> Some (''data:image/png;base64,'' @ b64encode d png)
                    | Inl e2 \<Rightarrow> None)\<rparr>, snd shot)"
proof -
  have nav: "initial_navigation d url w =
      (Inl (HTTPException 500 (''Failed to navigate to starting URL: '' @ str_exn e)), w1)"
    using assms by (auto simp: initial_navigation_def io_bind_def)
  show ?thesis
    by (cases "page_screenshot d ShotPng w1")
       (auto simp: try_except_nav_failed [OF nav] except_handler_def Let_def split: sum.splits)
qed

theorem initial_navigation_failure_witness:
  "py_truthy (JStr ''https://example.invalid'')
   \<and> try_except unreachable_driver [wait_action] (JStr ''https://example.invalid'') 0 =
      (Response \<lparr>success = False,
         message = ''Automation failed: 500: Failed to navigate to starting URL: net::ERR_NAME_NOT_RESOLVED'',
         data = None, screenshot = Some ''data:image/png;base64,UE5H''\<rparr>, 0)"
proof -
  have t: "py_truthy (JStr ''https://example.invalid'')" by simp
  have g: "page_goto unreachable_driver (JStr ''https://example.invalid'') ''domcontentloaded'' 0
             = (Inl (DriverError ''net::ERR_NAME_NOT_RESOLVED''), 0)
           \<or> (\<exists>w0. page_goto unreachable_driver (JStr ''https://example.invalid'')
                      ''domcontentloaded'' 0 = (Inr (), w0)
                \<and> page_wait_for_load_state unreachable_driver w0
                     = (Inl (DriverError ''net::ERR_NAME_NOT_RESOLVED''), 0))"
    by (simp add: unreachable_driver_def io_raise_def)
  have shot: "page_screenshot unreachable_driver ShotPng 0 = (Inr ''PNG'', 0)"
    by (simp add: unreachable_driver_def demo_driver_def io_return_def)
  have enc: "b64encode unreachable_driver ''PNG'' = ''UE5H''"
    by (simp add: unreachable_driver_def demo_driver_def)
  have code: "string_of_nat 500 = ''500''"
    by (simp add: string_of_nat.simps)
  show ?thesis
    using t initial_navigation_failure [OF t g, of "[wait_action]"]
    by (simp add: Let_def shot enc code)
qed

text \<open>
  Claim C9.  The executor returns a result exactly when browser, context and page were
  opened, the outer try with its handler produced that result (by any of its paths), and
  then, after the sleep, the context was closed and after it the browser was closed, both
  without raising.  So whenever the executor returns, both have been closed.
\<close>

theorem teardown_before_return:
  "execute_actions d actions url w = (Inr res, w') \<longleftrightarrow>
     (\<exists>w1 w2 w3 wt wc.
        chromium_launch d w = (Inr (), w1) \<and> new_context d w1 = (Inr (), w2)
        \<and> new_page d w2 = (Inr (), w3)
        \<and> try_except d actions url w3 = (res, wt)
        \<and> context_close d (asyncio_sleep d 1 wt) = (Inr (), wc)
        \<and> browser_close d wc = (Inr (), w'))"
  by (auto simp: execute_actions_def finally_block_def io_bind_def io_return_def
      split: prod.splits sum.splits)

theorem teardown_before_return_witness:
  "execute_actions demo_driver [press_no_selector, wait_action] JNull 0 =
     (Inr (Response \<lparr>success = True, message = ''Automation completed'',
        data = Some
          [\<lparr>step_action = press_no_selector, step_success = False,
            step_error = Some ''Press action requires a selector parameter'',
            step_screenshot = Some ''UE5H''\<rparr>,
           \<lparr>step_action = wait_action, step_success = True, step_error = None,
            step_screenshot = None\<rparr>],
        screenshot = Some ''data:image/png;base64,UE5H''\<rparr>), 0)"
proof -
  have nav: "initial_navigation demo_driver JNull 0 = (Inr (), 0)"
    by (simp add: initial_navigation_def)
  have loop: "run_loop demo_driver [press_no_selector, wait_action] [] 0 =
     (Completed
        [\<lparr>step_action = press_no_selector, step_success = False,
          step_error = Some ''Press action requires a selector parameter'',
          step_screenshot = Some ''UE5H''\<rparr>,
         \<lparr>step_action = wait_action, step_success = True, step_error = None,
          step_screenshot = None\<rparr>], 0)"
    by (simp add: demo_press_step demo_wait_step)
  have te: "try_except demo_driver [press_no_selector, wait_action] JNull 0 =
     (Response \<lparr>success = True, message = ''Automation completed'',
        data = Some
          [\<lparr>step_action = press_no_selector, step_success = False,
            step_error = Some ''Press action requires a selector parameter'',
            step_screenshot = Some ''UE5H''\<rparr>,
           \<lparr>step_action = wait_action, step_success = True, step_error = None,
            step_screenshot = None\<rparr>],
        screenshot = Some ''data:image/png;base64,UE5H''\<rparr>, 0)"
    by (simp add: try_except_completed [OF nav loop]) (simp add: demo_driver_def io_return_def)
  have calls: "chromium_launch demo_driver 0 = (Inr (), 0)"
    "new_context demo_driver 0 = (Inr (), 0)"
    "new_page demo_driver 0 = (Inr (), 0)"
    "context_close demo_driver (asyncio_sleep demo_driver 1 0) = (Inr (), 0)"
    "browser_close demo_driver 0 = (Inr (), 0)"
    by (simp_all add: demo_driver_def io_return_def)
  show ?thesis
    unfolding teardown_before_return
    using te calls by blast
qed

end
